theory Spec2Isabelle
  imports Main
begin

section \<open>Data model\<close>

text \<open>
  Modelled from the spec: the ORM classes of \<^verbatim>\<open>src.database.models\<close> and the pydantic schemas are imported by
  every module under \<^verbatim>\<open>src/\<close> but their declarations are not part of the sources at hand;
  the records below carry exactly the attributes the handlers, the repository and the
  tests read or write.  Python's attribute \<^verbatim>\<open>id\<close> is written \<open>uid\<close> for a user and
  \<open>cid\<close> for a contact, and a contact's \<^verbatim>\<open>email\<close> is \<open>contact_email\<close>, since the
  two classes share one name space here.  The relationship \<^verbatim>\<open>Contact.user\<close> is the foreign
  key \<open>user_id\<close>.
\<close>

datatype Role = admin | moderator | user

record User =
  uid :: nat
  username :: string
  email :: string
  password :: string
  avatar :: "string option"
  refresh_token :: "string option"
  confirmed :: bool
  role :: Role

record Contact =
  cid :: nat
  first_name :: string
  last_name :: string
  contact_email :: string
  phone_number :: string
  birthday :: string
  data :: "string option"
  user_id :: nat

text \<open>Request bodies: \<^verbatim>\<open>ContactSchema\<close> / \<^verbatim>\<open>ContactUpdateSchema\<close> and \<^verbatim>\<open>UserSchema\<close>.\<close>

record ContactSchema =
  b_first_name :: string
  b_last_name :: string
  b_email :: string
  b_phone_number :: string
  b_birthday :: string
  b_data :: "string option"

record UserSchema =
  s_username :: string
  s_email :: string
  s_password :: string

section \<open>Exceptions\<close>

text \<open>
  Every \<^verbatim>\<open>raise\<close> of the source is a value.  \<open>CancelledError\<close> stands for the exceptions
  that derive from \<^verbatim>\<open>BaseException\<close> only, which \<^verbatim>\<open>except Exception\<close> does not catch.
\<close>

datatype exn =
    HTTPException nat string
  | TypeError string
  | ValueError string
  | AttributeError string
  | MultipleResultsFound
  | ConnectionErrors string
  | Exception string
  | CancelledError

fun is_Exception :: "exn \<Rightarrow> bool" where
  "is_Exception CancelledError = False"
| "is_Exception _ = True"

datatype arg = IntArg nat | StrArg string

text \<open>
  \<^verbatim>\<open>HTTPException(**kwargs)\<close>: the constructor takes \<^verbatim>\<open>status_code\<close> (required),
  \<^verbatim>\<open>detail\<close> and \<^verbatim>\<open>headers\<close>.  A keyword it does not know, or a missing
  \<^verbatim>\<open>status_code\<close>, makes the call itself raise \<^verbatim>\<open>TypeError\<close>, and that is then the
  exception the surrounding \<^verbatim>\<open>raise\<close> statement lets escape.
\<close>

definition new_HTTPException :: "(string \<times> arg) list \<Rightarrow> exn" where
  "new_HTTPException kwargs =
     (if filter (\<lambda>k. k \<notin> set [''status_code'', ''detail'', ''headers'']) (map fst kwargs) \<noteq> []
      then TypeError ''__init__() got an unexpected keyword argument''
      else case map_of kwargs ''status_code'' of
             None \<Rightarrow> TypeError ''__init__() missing 1 required positional argument''
           | Some (StrArg s) \<Rightarrow> ValueError s
           | Some (IntArg code) \<Rightarrow>
               HTTPException code
                 (case map_of kwargs ''detail'' of Some (StrArg d) \<Rightarrow> d | _ \<Rightarrow> []))"

text \<open>
  What the web framework makes of a handler's outcome: the decorator's status code with the
  returned body, the status and detail of an \<^verbatim>\<open>HTTPException\<close>, and status 500 for any
  other exception that escapes the handler.
\<close>

datatype 'a response = Response nat 'a | ErrorResponse nat string

fun respond :: "nat \<Rightarrow> exn + 'a \<Rightarrow> 'a response" where
  "respond ok (Inr v) = Response ok v"
| "respond ok (Inl (HTTPException code detail)) = ErrorResponse code detail"
| "respond ok (Inl e) = ErrorResponse 500 ''Internal Server Error''"

section \<open>The database session\<close>

text \<open>
  An \<^verbatim>\<open>AsyncSession\<close> holds the rows as the open transaction sees them (\<open>pending\<close>) and
  the rows as last committed.  \<open>calls\<close> records the transaction calls in the order they
  were made.
\<close>

record tables =
  users :: "User list"
  contacts :: "Contact list"

datatype session_call = Commit | Rollback | Close

record AsyncSession =
  pending :: tables
  committed :: tables
  closed :: bool
  calls :: "session_call list"

definition commit :: "AsyncSession \<Rightarrow> AsyncSession" where
  "commit db = db\<lparr>committed := pending db, calls := calls db @ [Commit]\<rparr>"

definition rollback :: "AsyncSession \<Rightarrow> AsyncSession" where
  "rollback db = db\<lparr>pending := committed db, calls := calls db @ [Rollback]\<rparr>"

definition close :: "AsyncSession \<Rightarrow> AsyncSession" where
  "close db = db\<lparr>pending := committed db, closed := True, calls := calls db @ [Close]\<rparr>"

definition scalar_one_or_none :: "'a list \<Rightarrow> exn + 'a option" where
  "scalar_one_or_none rows =
     (case rows of
        [] \<Rightarrow> Inr None
      | [r] \<Rightarrow> Inr (Some r)
      | _ \<Rightarrow> Inl MultipleResultsFound)"

section \<open>\<^verbatim>\<open>src/repository/contacts.py\<close>\<close>

definition get_contacts :: "nat \<Rightarrow> nat \<Rightarrow> AsyncSession \<Rightarrow> User \<Rightarrow> Contact list" where
  "get_contacts limit offset db usr =
     take limit (drop offset (filter (\<lambda>c. user_id c = uid usr) (contacts (pending db))))"

definition get_all_contacts :: "nat \<Rightarrow> nat \<Rightarrow> AsyncSession \<Rightarrow> Contact list" where
  "get_all_contacts limit offset db = take limit (drop offset (contacts (pending db)))"

definition get_contact :: "nat \<Rightarrow> AsyncSession \<Rightarrow> User \<Rightarrow> exn + Contact option" where
  "get_contact contact_id db usr =
     scalar_one_or_none
       (filter (\<lambda>c. cid c = contact_id \<and> user_id c = uid usr) (contacts (pending db)))"

text \<open>The primary key the database gives a new row: one past the largest in the table.\<close>

definition next_id :: "nat list \<Rightarrow> nat" where
  "next_id ids = Suc (fold max ids 0)"

definition create_todo :: "ContactSchema \<Rightarrow> AsyncSession \<Rightarrow> User \<Rightarrow> Contact \<times> AsyncSession" where
  "create_todo body db usr =
     (let contact = \<lparr>cid = next_id (map cid (contacts (pending db))),
                     first_name = b_first_name body, last_name = b_last_name body,
                     contact_email = b_email body, phone_number = b_phone_number body,
                     birthday = b_birthday body, data = b_data body, user_id = uid usr\<rparr>;
          db1 = db\<lparr>pending := (pending db)\<lparr>contacts := contacts (pending db) @ [contact]\<rparr>\<rparr>
      in (contact, commit db1))"

definition update_contact ::
  "nat \<Rightarrow> ContactSchema \<Rightarrow> AsyncSession \<Rightarrow> User \<Rightarrow> (exn + Contact option) \<times> AsyncSession" where
  "update_contact contact_id body db usr =
     (case scalar_one_or_none
             (filter (\<lambda>c. cid c = contact_id \<and> user_id c = uid usr) (contacts (pending db))) of
        Inl e \<Rightarrow> (Inl e, db)
      | Inr None \<Rightarrow> (Inr None, db)
      | Inr (Some contact) \<Rightarrow>
          (let contact' = contact\<lparr>first_name := b_first_name body, last_name := b_last_name body,
                                  contact_email := b_email body,
                                  phone_number := b_phone_number body,
                                  birthday := b_birthday body, data := b_data body\<rparr>;
               db1 = db\<lparr>pending := (pending db)\<lparr>contacts :=
                        map (\<lambda>c. if cid c = cid contact then contact' else c)
                            (contacts (pending db))\<rparr>\<rparr>
           in (Inr (Some contact'), commit db1)))"

definition remove_contact ::
  "nat \<Rightarrow> AsyncSession \<Rightarrow> User \<Rightarrow> (exn + Contact option) \<times> AsyncSession" where
  "remove_contact contact_id db usr =
     (case scalar_one_or_none
             (filter (\<lambda>c. cid c = contact_id \<and> user_id c = uid usr) (contacts (pending db))) of
        Inl e \<Rightarrow> (Inl e, db)
      | Inr None \<Rightarrow> (Inr None, db)
      | Inr (Some contact) \<Rightarrow>
          (let db1 = db\<lparr>pending := (pending db)\<lparr>contacts :=
                        filter (\<lambda>c. cid c \<noteq> cid contact) (contacts (pending db))\<rparr>\<rparr>
           in (Inr (Some contact), commit db1)))"

section \<open>\<^verbatim>\<open>src/routes/contacts.py\<close>\<close>

text \<open>
  The handlers receive the session and the authenticated user from their dependencies.
  \<^verbatim>\<open>routes/contacts.py\<close> looks the repository functions up by name in the module
  \<^verbatim>\<open>src.repository.contacts\<close> when a request arrives.  The module defines
  \<^verbatim>\<open>get_contacts\<close>, \<^verbatim>\<open>get_all_contacts\<close>, \<^verbatim>\<open>get_contact\<close>, \<^verbatim>\<open>create_todo\<close>,
  \<^verbatim>\<open>update_contact\<close> and \<^verbatim>\<open>remove_contact\<close>; \<open>repository_contacts\<close> lists its one
  attribute that is callable with a body, a session and a user.
\<close>

definition repository_contacts ::
  "(string \<times> (ContactSchema \<Rightarrow> AsyncSession \<Rightarrow> User \<Rightarrow> Contact \<times> AsyncSession)) list" where
  "repository_contacts = [(''create_todo'', create_todo)]"

definition route_get_contact :: "nat \<Rightarrow> AsyncSession \<Rightarrow> User \<Rightarrow> exn + Contact" where
  "route_get_contact contact_id db usr =
     (case get_contact contact_id db usr of
        Inl e \<Rightarrow> Inl e
      | Inr None \<Rightarrow>
          Inl (new_HTTPException [(''status_code'', IntArg 404), (''detail'', StrArg ''NOT FOUND!'')])
      | Inr (Some contact) \<Rightarrow> Inr contact)"

definition route_create_contact ::
  "ContactSchema \<Rightarrow> AsyncSession \<Rightarrow> User \<Rightarrow> (exn + Contact) \<times> AsyncSession" where
  "route_create_contact body db usr =
     (case map_of repository_contacts ''create_contact'' of
        None \<Rightarrow>
          (Inl (AttributeError ''module src.repository.contacts has no attribute create_contact''),
           db)
      | Some f \<Rightarrow> (let (contact, db') = f body db usr in (Inr contact, db')))"

definition route_update_contact ::
  "ContactSchema \<Rightarrow> nat \<Rightarrow> AsyncSession \<Rightarrow> User \<Rightarrow> (exn + Contact) \<times> AsyncSession" where
  "route_update_contact body contact_id db usr =
     (case update_contact contact_id body db usr of
        (Inl e, db') \<Rightarrow> (Inl e, db')
      | (Inr None, db') \<Rightarrow>
          (Inl (new_HTTPException [(''status_code'', IntArg 404), (''detail'', StrArg ''NOT FOUND!'')]),
           db')
      | (Inr (Some contact), db') \<Rightarrow> (Inr contact, db'))"

definition route_delete_contact ::
  "nat \<Rightarrow> AsyncSession \<Rightarrow> User \<Rightarrow> (exn + Contact) \<times> AsyncSession" where
  "route_delete_contact contact_id db usr =
     (case remove_contact contact_id db usr of
        (Inl e, db') \<Rightarrow> (Inl e, db')
      | (Inr None, db') \<Rightarrow>
          (Inl (new_HTTPException [(''status_code'', IntArg 404), (''detail'', StrArg ''NOT FOUND!'')]),
           db')
      | (Inr (Some contact), db') \<Rightarrow> (Inr contact, db'))"

section \<open>The credential service and the user repository\<close>

text \<open>
  \<^verbatim>\<open>src.services.auth\<close> is imported by the handlers but is not among the sources at hand.
  Its functions are taken as parameters: a record of the functions the handlers call.
  A function that can raise returns a sum.
\<close>

record AuthService =
  get_password_hash :: "string \<Rightarrow> string"
  verify_password :: "string \<Rightarrow> string \<Rightarrow> exn + bool"
  create_access_token :: "(string \<times> string) list \<Rightarrow> string"
  create_refresh_token :: "(string \<times> string) list \<Rightarrow> string"
  decode_refresh_token :: "string \<Rightarrow> exn + string"
  get_email_from_token :: "string \<Rightarrow> exn + string"
  create_email_token :: "(string \<times> string) list \<Rightarrow> string"

text \<open>
  Modelled from the spec: \<^verbatim>\<open>src/repository/users.py\<close> is imported by
  \<^verbatim>\<open>src/routes/auth.py\<close> and exercised by \<^verbatim>\<open>tests/test_repository_users.py\<close> but is
  not among the sources at hand.  \<open>get_user_by_email(email) -> User | none\<close>.
\<close>

definition get_user_by_email :: "string \<Rightarrow> AsyncSession \<Rightarrow> User option" where
  "get_user_by_email e db = find (\<lambda>u. email u = e) (users (pending db))"

text \<open>
  Modelled from the spec: \<open>create_user(signup_data) -> User\<close> persists a new user with
  \<open>confirmed = false\<close> and enriches the avatar through an external lookup keyed by email,
  whose failure is ignored (the avatar stays unset).  The lookup's answer is the parameter
  \<open>gravatar\<close>, \<open>None\<close> when the service fails.  The role is the default \<open>user\<close>; the
  test checks one \<^verbatim>\<open>add\<close>, one \<^verbatim>\<open>commit\<close> and one \<^verbatim>\<open>refresh\<close>.
\<close>

definition create_user ::
  "(string \<Rightarrow> string option) \<Rightarrow> UserSchema \<Rightarrow> AsyncSession \<Rightarrow> User \<times> AsyncSession" where
  "create_user gravatar body db =
     (let new_user = \<lparr>uid = next_id (map uid (users (pending db))),
                      username = s_username body, email = s_email body,
                      password = s_password body, avatar = gravatar (s_email body),
                      refresh_token = None, confirmed = False, role = user\<rparr>;
          db1 = db\<lparr>pending := (pending db)\<lparr>users := users (pending db) @ [new_user]\<rparr>\<rparr>
      in (new_user, commit db1))"

text \<open>
  Modelled from the spec: \<open>update_token(user, token_or_none)\<close> overwrites the user's
  \<open>refresh_token\<close> field; the test checks the assignment and one \<^verbatim>\<open>commit\<close>.  The user
  object is the row with its primary key.
\<close>

definition update_token :: "User \<Rightarrow> string option \<Rightarrow> AsyncSession \<Rightarrow> AsyncSession" where
  "update_token usr token db =
     commit (db\<lparr>pending := (pending db)\<lparr>users :=
        map (\<lambda>u. if uid u = uid usr then u\<lparr>refresh_token := token\<rparr> else u)
            (users (pending db))\<rparr>\<rparr>)"

text \<open>
  Modelled from the spec: \<open>confirmed_email(email)\<close> sets \<open>confirmed = true\<close> for the
  matching user; the test checks that it goes through \<open>get_user_by_email\<close> and commits
  once.  With no matching user there is no row to set.
\<close>

definition confirmed_email :: "string \<Rightarrow> AsyncSession \<Rightarrow> AsyncSession" where
  "confirmed_email e db =
     (case get_user_by_email e db of
        None \<Rightarrow> commit db
      | Some usr \<Rightarrow>
          commit (db\<lparr>pending := (pending db)\<lparr>users :=
            map (\<lambda>u. if uid u = uid usr then u\<lparr>confirmed := True\<rparr> else u)
                (users (pending db))\<rparr>\<rparr>))"

section \<open>\<^verbatim>\<open>src/services/email.py\<close>\<close>

text \<open>
  A background task is the call it will make.  \<open>send_email\<close> builds the confirmation
  token and hands the message (recipient, host, username, token) to the mail transport,
  a parameter; a \<^verbatim>\<open>ConnectionErrors\<close> of the transport is printed and not raised again.
  The result is the exception that escapes, if any, and the lines printed.
\<close>

datatype task = send_email_task string string string

definition send_email ::
  "AuthService \<Rightarrow> (string \<times> string \<times> string \<times> string \<Rightarrow> exn + unit) \<Rightarrow>
     string \<Rightarrow> string \<Rightarrow> string \<Rightarrow> (exn + unit) \<times> string list" where
  "send_email auth_service send_message e uname host =
     (let token_verification = create_email_token auth_service [(''sub'', e)]
      in case send_message (e, host, uname, token_verification) of
           Inr u \<Rightarrow> (Inr (), [])
         | Inl (ConnectionErrors err) \<Rightarrow> (Inr (), [err])
         | Inl other \<Rightarrow> (Inl other, []))"

fun run_task ::
  "AuthService \<Rightarrow> (string \<times> string \<times> string \<times> string \<Rightarrow> exn + unit) \<Rightarrow> task \<Rightarrow>
     (exn + unit) \<times> string list" where
  "run_task auth_service send_message (send_email_task e uname host) =
     send_email auth_service send_message e uname host"

section \<open>\<^verbatim>\<open>src/routes/auth.py\<close>\<close>

text \<open>
  Each handler takes the session and returns its outcome with the session as it leaves it;
  \<open>signup\<close> and \<open>request_email\<close> also return the background tasks they have added.
  The handlers are named \<open>route_\<close> and the function's name, as the repository has
  functions of the same names.
\<close>

record TokenSchema =
  access_token :: string
  refresh_token_out :: string
  token_type :: string

definition route_signup ::
  "AuthService \<Rightarrow> (string \<Rightarrow> string option) \<Rightarrow> UserSchema \<Rightarrow> task list \<Rightarrow> string \<Rightarrow>
     AsyncSession \<Rightarrow> (exn + User) \<times> AsyncSession \<times> task list" where
  "route_signup auth_service gravatar body bt base_url db =
     (case get_user_by_email (s_email body) db of
        Some exist_user \<Rightarrow>
          (Inl (new_HTTPException
                  [(''status_code'', IntArg 409), (''detail'', StrArg ''Account already exists'')]),
           db, bt)
      | None \<Rightarrow>
          (let body1 = body\<lparr>s_password := get_password_hash auth_service (s_password body)\<rparr>;
               (new_user, db1) = create_user gravatar body1 db;
               bt1 = bt @ [send_email_task (email new_user) (username new_user) base_url]
           in (Inr new_user, db1, bt1)))"

text \<open>
  Reading an attribute of the value a lookup returned: on \<^verbatim>\<open>None\<close> the read raises
  \<^verbatim>\<open>AttributeError\<close>.  \<open>route_refresh_token\<close> reads \<^verbatim>\<open>user.refresh_token\<close> with no
  check before it, so its \<open>None\<close> branch is that error; \<open>route_request_email\<close> reads
  \<^verbatim>\<open>user.confirmed\<close> first and tests \<^verbatim>\<open>if user\<close> afterwards.
\<close>

definition getattr :: "('a \<Rightarrow> 'b) \<Rightarrow> string \<Rightarrow> 'a option \<Rightarrow> exn + 'b" where
  "getattr field name obj =
     (case obj of
        None \<Rightarrow> Inl (AttributeError name)
      | Some x \<Rightarrow> Inr (field x))"

text \<open>
  The second entry of the access token's data is the source's Cyrillic literal, written
  as its UTF-8 bytes.
\<close>

definition sonya :: string where
  "sonya = [CHR 0xD0, CHR 0xA1, CHR 0xD0, CHR 0xBE, CHR 0xD0, CHR 0xBD, CHR 0xD1, CHR 0x8F]"

definition route_login ::
  "AuthService \<Rightarrow> string \<Rightarrow> string \<Rightarrow> AsyncSession \<Rightarrow> (exn + TokenSchema) \<times> AsyncSession" where
  "route_login auth_service body_username body_password db =
     (case get_user_by_email body_username db of
        None \<Rightarrow>
          (Inl (new_HTTPException
                  [(''status_code'', IntArg 401), (''detail'', StrArg ''Invalid email'')]), db)
      | Some usr \<Rightarrow>
          if \<not> confirmed usr then
            (Inl (new_HTTPException
                    [(''status_code'', IntArg 401), (''detail'', StrArg ''Email not confirmed'')]), db)
          else
            (case verify_password auth_service body_password (password usr) of
               Inl e \<Rightarrow> (Inl e, db)
             | Inr False \<Rightarrow>
                 (Inl (new_HTTPException
                         [(''tatus_code'', IntArg 401), (''detail'', StrArg ''Invalid password'')]), db)
             | Inr True \<Rightarrow>
                 (let access = create_access_token auth_service
                                 [(''sub'', email usr), (''test'', sonya)];
                      refresh = create_refresh_token auth_service [(''sub'', email usr)];
                      db1 = update_token usr (Some refresh) db
                  in (Inr \<lparr>access_token = access, refresh_token_out = refresh,
                           token_type = ''bearer''\<rparr>, db1))))"

definition route_refresh_token ::
  "AuthService \<Rightarrow> string \<Rightarrow> AsyncSession \<Rightarrow> (exn + TokenSchema) \<times> AsyncSession" where
  "route_refresh_token auth_service token db =
     (case decode_refresh_token auth_service token of
        Inl e \<Rightarrow> (Inl e, db)
      | Inr e \<Rightarrow>
          (case get_user_by_email e db of
             None \<Rightarrow> (Inl (AttributeError ''refresh_token''), db)
           | Some usr \<Rightarrow>
               if refresh_token usr \<noteq> Some token then
                 (Inl (new_HTTPException
                         [(''status_code'', IntArg 401),
                          (''detail'', StrArg ''Invalid refresh token'')]),
                  update_token usr None db)
               else
                 (let access = create_access_token auth_service [(''sub'', e)];
                      refresh = create_refresh_token auth_service [(''sub'', e)];
                      db1 = update_token usr (Some refresh) db
                  in (Inr \<lparr>access_token = access, refresh_token_out = refresh,
                           token_type = ''bearer''\<rparr>, db1))))"

definition route_confirmed_email ::
  "AuthService \<Rightarrow> string \<Rightarrow> AsyncSession \<Rightarrow> (exn + string) \<times> AsyncSession" where
  "route_confirmed_email auth_service token db =
     (case get_email_from_token auth_service token of
        Inl e \<Rightarrow> (Inl e, db)
      | Inr e \<Rightarrow>
          (case get_user_by_email e db of
             None \<Rightarrow>
               (Inl (new_HTTPException
                       [(''status_code'', IntArg 400), (''detail'', StrArg ''Verification error'')]),
                db)
           | Some usr \<Rightarrow>
               if confirmed usr then (Inr ''Your email is already confirmed'', db)
               else (Inr ''Email confirmed'', confirmed_email e db)))"

definition route_request_email ::
  "string \<Rightarrow> task list \<Rightarrow> string \<Rightarrow> AsyncSession \<Rightarrow> (exn + string) \<times> task list" where
  "route_request_email body_email background_tasks base_url db =
     (let usr = get_user_by_email body_email db
      in case getattr confirmed ''confirmed'' usr of
           Inl e \<Rightarrow> (Inl e, background_tasks)
         | Inr True \<Rightarrow> (Inr ''Your email is already confirmed'', background_tasks)
         | Inr False \<Rightarrow>
             (Inr ''Check your email for confirmation.'',
              (case usr of
                 Some u \<Rightarrow> background_tasks @ [send_email_task (email u) (username u) base_url]
               | None \<Rightarrow> background_tasks)))"

section \<open>\<^verbatim>\<open>src/database/db.py\<close>\<close>

text \<open>
  \<open>session_maker\<close> is \<^verbatim>\<open>_session_maker\<close>: \<open>None\<close>, or the session the factory makes.
  The body of the \<^verbatim>\<open>async with\<close> block is a function of the session.  What the caller of
  the block sees is a \<open>scope_result\<close>: the block ran to its end, an exception leaves the
  block, or the block was cut short by an exception that does not leave it.  The third
  component is what \<^verbatim>\<open>print\<close> wrote.
\<close>

record DatabaseSessionManager =
  session_maker :: "AsyncSession option"

datatype 'a scope_result = Completed 'a | Propagated exn | Swallowed

definition session ::
  "DatabaseSessionManager \<Rightarrow> (AsyncSession \<Rightarrow> (exn + 'a) \<times> AsyncSession) \<Rightarrow>
     'a scope_result \<times> AsyncSession option \<times> exn list" where
  "session self body =
     (case session_maker self of
        None \<Rightarrow> (Propagated (Exception ''Session is not initialized''), None, [])
      | Some s \<Rightarrow>
          (case body s of
             (Inr v, s1) \<Rightarrow> (Completed v, Some (close s1), [])
           | (Inl err, s1) \<Rightarrow>
               if is_Exception err then (Swallowed, Some (close (rollback s1)), [err])
               else (Propagated err, Some (close s1), [])))"

section \<open>Requests\<close>

text \<open>
  One request: a handler runs inside the session scope on a new session over the stored
  tables, and the tables stored afterwards are what the session has committed.  The
  contact handlers get the authenticated user from their dependency.
\<close>

datatype request =
    Signup UserSchema string
  | Login string string
  | RefreshToken string
  | ConfirmedEmail string
  | RequestEmail string string
  | CreateContact User ContactSchema
  | UpdateContact User nat ContactSchema
  | DeleteContact User nat

datatype reply =
    UserReply User
  | TokenReply TokenSchema
  | MessageReply string
  | ContactReply Contact

fun handle ::
  "AuthService \<Rightarrow> (string \<Rightarrow> string option) \<Rightarrow> request \<Rightarrow> AsyncSession \<Rightarrow>
     (exn + reply) \<times> AsyncSession" where
  "handle a g (Signup body base_url) db =
     (case route_signup a g body [] base_url db of (r, db', bt) \<Rightarrow> (map_sum id UserReply r, db'))"
| "handle a g (Login u p) db =
     (case route_login a u p db of (r, db') \<Rightarrow> (map_sum id TokenReply r, db'))"
| "handle a g (RefreshToken t) db =
     (case route_refresh_token a t db of (r, db') \<Rightarrow> (map_sum id TokenReply r, db'))"
| "handle a g (ConfirmedEmail t) db =
     (case route_confirmed_email a t db of (r, db') \<Rightarrow> (map_sum id MessageReply r, db'))"
| "handle a g (RequestEmail e base_url) db =
     (case route_request_email e [] base_url db of (r, bt) \<Rightarrow> (map_sum id MessageReply r, db))"
| "handle a g (CreateContact usr body) db =
     (case route_create_contact body db usr of (r, db') \<Rightarrow> (map_sum id ContactReply r, db'))"
| "handle a g (UpdateContact usr contact_id body) db =
     (case route_update_contact body contact_id db usr of
        (r, db') \<Rightarrow> (map_sum id ContactReply r, db'))"
| "handle a g (DeleteContact usr contact_id) db =
     (case route_delete_contact contact_id db usr of (r, db') \<Rightarrow> (map_sum id ContactReply r, db'))"

definition new_session :: "tables \<Rightarrow> AsyncSession" where
  "new_session t = \<lparr>pending = t, committed = t, closed = False, calls = []\<rparr>"

definition serve ::
  "AuthService \<Rightarrow> (string \<Rightarrow> string option) \<Rightarrow> tables \<Rightarrow> request \<Rightarrow> tables" where
  "serve a g t req =
     (case session \<lparr>session_maker = Some (new_session t)\<rparr> (handle a g req) of
        (r, Some s, out) \<Rightarrow> committed s
      | (r, None, out) \<Rightarrow> t)"

text \<open>Whether the stored user with email \<open>e\<close> is confirmed.\<close>

definition is_confirmed :: "string \<Rightarrow> tables \<Rightarrow> bool" where
  "is_confirmed e t =
     (case find (\<lambda>u. email u = e) (users t) of
        None \<Rightarrow> False
      | Some u \<Rightarrow> confirmed u)"

text \<open>
  A signup request with its background tasks: the response is made from the handler's
  outcome, and the tasks the handler added run afterwards against the mail transport.
\<close>

definition post_signup ::
  "AuthService \<Rightarrow> (string \<Rightarrow> string option) \<Rightarrow>
     (string \<times> string \<times> string \<times> string \<Rightarrow> exn + unit) \<Rightarrow> UserSchema \<Rightarrow> string \<Rightarrow> tables \<Rightarrow>
     User response \<times> tables \<times> ((exn + unit) \<times> string list) list" where
  "post_signup a g send_message body base_url t =
     (case route_signup a g body [] base_url (new_session t) of
        (r, db', bt) \<Rightarrow> (respond 201 r, committed db', map (run_task a send_message) bt))"

section \<open>Example data\<close>

definition alice :: User where
  "alice = \<lparr>uid = 1, username = ''alice'', email = ''a@x.com'', password = ''h:pw'',
            avatar = None, refresh_token = Some ''refresh-1'', confirmed = True, role = user\<rparr>"

definition bob :: User where
  "bob = \<lparr>uid = 2, username = ''bob'', email = ''b@x.com'', password = ''h:pw2'',
          avatar = None, refresh_token = None, confirmed = False, role = user\<rparr>"

definition jd :: Contact where
  "jd = \<lparr>cid = 1, first_name = ''J'', last_name = ''D'', contact_email = ''j@d.com'',
         phone_number = ''123'', birthday = ''2000-01-01'', data = None, user_id = 1\<rparr>"

definition jd_body :: ContactSchema where
  "jd_body = \<lparr>b_first_name = ''J'', b_last_name = ''D'', b_email = ''j@d.com'',
              b_phone_number = ''123'', b_birthday = ''2000-01-01'', b_data = None\<rparr>"

definition db0 :: AsyncSession where
  "db0 = \<lparr>pending = \<lparr>users = [alice, bob], contacts = [jd]\<rparr>,
          committed = \<lparr>users = [alice, bob], contacts = [jd]\<rparr>,
          closed = False, calls = []\<rparr>"

definition tables0 :: tables where
  "tables0 = \<lparr>users = [alice, bob], contacts = [jd]\<rparr>"

definition carol_body :: UserSchema where
  "carol_body = \<lparr>s_username = ''carol'', s_email = ''c@x.com'', s_password = ''pw3''\<rparr>"

definition auth0 :: AuthService where
  "auth0 = \<lparr>get_password_hash = (\<lambda>p. ''h:'' @ p),
            verify_password = (\<lambda>p h. Inr (h = ''h:'' @ p)),
            create_access_token = (\<lambda>d. ''access-2''),
            create_refresh_token = (\<lambda>d. ''refresh-2''),
            decode_refresh_token =
              (\<lambda>t. if t = ''refresh-0'' \<or> t = ''refresh-1'' \<or> t = ''refresh-2''
                   then Inr ''a@x.com''
                   else Inl (HTTPException 401 ''Could not validate credentials'')),
            get_email_from_token =
              (\<lambda>t. if t = ''mail-a'' then Inr ''a@x.com''
                   else if t = ''mail-b'' then Inr ''b@x.com''
                   else Inl (HTTPException 422 ''Invalid token for email verification'')),
            create_email_token = (\<lambda>d. ''mail-c'')\<rparr>"

definition gravatar0 :: "string \<Rightarrow> string option" where
  "gravatar0 e = None"

text \<open>A handler body that changes a row without committing and then fails.\<close>

definition faulty_body :: "AsyncSession \<Rightarrow> (exn + unit) \<times> AsyncSession" where
  "faulty_body db =
     (Inl (Exception ''storage fault''),
      db\<lparr>pending := (pending db)\<lparr>contacts := []\<rparr>\<rparr>)"

definition sessionmanager0 :: DatabaseSessionManager where
  "sessionmanager0 = \<lparr>session_maker = Some (new_session tables0)\<rparr>"

definition alice_body :: UserSchema where
  "alice_body = \<lparr>s_username = ''alice2'', s_email = ''a@x.com'', s_password = ''pw9''\<rparr>"

text \<open>A mail transport that cannot connect.\<close>

definition transport_down :: "string \<times> string \<times> string \<times> string \<Rightarrow> exn + unit" where
  "transport_down m = Inl (ConnectionErrors ''connection refused'')"

section \<open>Owner isolation\<close>

lemma filter_other_owner:
  assumes "distinct (map cid cs)" and "c \<in> set cs" and "u \<noteq> user_id c"
  shows "filter (\<lambda>x. cid x = cid c \<and> user_id x = u) cs = []"
proof -
  have "x = c" if "x \<in> set cs" and "cid x = cid c" for x
    using assms(1,2) that by (meson distinct_map inj_onD)
  with assms(3) show ?thesis
    by (auto simp: filter_empty_conv)
qed

lemma scalar_one_or_none_Nil: "scalar_one_or_none [] = Inr None"
  by (simp add: scalar_one_or_none_def)

lemma nth_in_window:
  assumes "i < length xs" and "offset \<le> i" and "i < offset + limit"
  shows "xs ! i \<in> set (take limit (drop offset xs))"
proof -
  have "i - offset < length xs - offset" and "i - offset < limit"
    using assms by arith+
  then have "i - offset < length (take limit (drop offset xs))"
    by simp
  moreover have "take limit (drop offset xs) ! (i - offset) = xs ! i"
    using assms by simp
  ultimately show ?thesis
    by (metis nth_mem)
qed

text \<open>
  Claim C1.  Let contact \<open>c\<close> be row \<open>i\<close> of the contacts table, whose primary keys are
  distinct, and let \<open>b\<close> be a user other than the owner of \<open>c\<close>.  Then \<open>get_contact\<close>,
  \<open>update_contact\<close> and \<open>remove_contact\<close> called by \<open>b\<close> with the id of \<open>c\<close> return
  \<open>None\<close>, the last two leave the session (rows and transaction calls) as it was, the
  three routes answer 404, and \<open>get_all_contacts\<close> lists \<open>c\<close> on every page whose window
  covers row \<open>i\<close>.
\<close>

theorem owner_isolation:
  assumes "distinct (map cid (contacts (pending db)))"
    and "i < length (contacts (pending db))"
    and "c = contacts (pending db) ! i"
    and "uid b \<noteq> user_id c"
  shows "get_contact (cid c) db b = Inr None
    \<and> update_contact (cid c) body db b = (Inr None, db)
    \<and> remove_contact (cid c) db b = (Inr None, db)
    \<and> respond 200 (route_get_contact (cid c) db b) = ErrorResponse 404 ''NOT FOUND!''
    \<and> route_update_contact body (cid c) db b = (Inl (HTTPException 404 ''NOT FOUND!''), db)
    \<and> route_delete_contact (cid c) db b = (Inl (HTTPException 404 ''NOT FOUND!''), db)
    \<and> (offset \<le> i \<and> i < offset + limit \<longrightarrow> c \<in> set (get_all_contacts limit offset db))"
proof -
  have mem: "c \<in> set (contacts (pending db))"
    using assms(2,3) by simp
  have none: "filter (\<lambda>x. cid x = cid c \<and> user_id x = uid b) (contacts (pending db)) = []"
    using filter_other_owner [OF assms(1) mem assms(4)] .
  have g: "get_contact (cid c) db b = Inr None"
    by (simp add: get_contact_def none scalar_one_or_none_Nil)
  have u: "update_contact (cid c) body db b = (Inr None, db)"
    by (simp add: update_contact_def none scalar_one_or_none_Nil)
  have r: "remove_contact (cid c) db b = (Inr None, db)"
    by (simp add: remove_contact_def none scalar_one_or_none_Nil)
  have nf: "new_HTTPException [(''status_code'', IntArg 404), (''detail'', StrArg ''NOT FOUND!'')]
      = HTTPException 404 ''NOT FOUND!''"
    by (simp add: new_HTTPException_def)
  have rg: "respond 200 (route_get_contact (cid c) db b) = ErrorResponse 404 ''NOT FOUND!''"
    by (simp add: route_get_contact_def g nf)
  have ru: "route_update_contact body (cid c) db b = (Inl (HTTPException 404 ''NOT FOUND!''), db)"
    by (simp add: route_update_contact_def u nf)
  have rd: "route_delete_contact (cid c) db b = (Inl (HTTPException 404 ''NOT FOUND!''), db)"
    by (simp add: route_delete_contact_def r nf)
  have l: "offset \<le> i \<and> i < offset + limit \<longrightarrow> c \<in> set (get_all_contacts limit offset db)"
    using nth_in_window [OF assms(2)] assms(3) by (simp add: get_all_contacts_def)
  from g u r rg ru rd l show ?thesis
    by blast
qed

theorem owner_isolation_witness:
  "get_contact 1 db0 bob = Inr None
    \<and> update_contact 1 jd_body db0 bob = (Inr None, db0)
    \<and> remove_contact 1 db0 bob = (Inr None, db0)
    \<and> respond 200 (route_get_contact 1 db0 bob) = ErrorResponse 404 ''NOT FOUND!''
    \<and> jd \<in> set (get_all_contacts 10 0 db0)"
proof -
  have a: "distinct (map cid (contacts (pending db0)))"
    by (simp add: db0_def)
  have b: "0 < length (contacts (pending db0))"
    by (simp add: db0_def)
  have c: "jd = contacts (pending db0) ! 0"
    by (simp add: db0_def)
  have d: "uid bob \<noteq> user_id jd"
    by (simp add: bob_def jd_def)
  have e: "cid jd = 1"
    by (simp add: jd_def)
  show ?thesis
    using owner_isolation [OF a b c d, of jd_body 0 10] by (simp add: e)
qed

section \<open>Facts about the building blocks\<close>

lemma find_map_same_key:
  assumes "\<And>x. P (f x) = P x"
  shows "find P (map f xs) = map_option f (find P xs)"
  using assms by (induction xs) auto

lemma find_append_new:
  "find P (xs @ [n]) = (case find P xs of Some x \<Rightarrow> Some x | None \<Rightarrow> if P n then Some n else None)"
  by (induction xs) auto

lemma new_HTTPException_ok:
  "new_HTTPException [(''status_code'', IntArg c), (''detail'', StrArg d)] = HTTPException c d"
  by (simp add: new_HTTPException_def)

lemma new_HTTPException_tatus_code:
  "new_HTTPException [(''tatus_code'', IntArg c), (''detail'', StrArg d)]
     = TypeError ''__init__() got an unexpected keyword argument''"
  by (simp add: new_HTTPException_def)

lemma get_user_by_email_update_token:
  "get_user_by_email e (update_token usr tok db)
     = map_option (\<lambda>u. if uid u = uid usr then u\<lparr>refresh_token := tok\<rparr> else u)
         (get_user_by_email e db)"
  by (simp add: get_user_by_email_def update_token_def commit_def find_map_same_key)

lemma update_token_committed:
  "committed (update_token usr tok db) = pending (update_token usr tok db)"
  by (simp add: update_token_def commit_def)

lemma get_user_by_email_new_session:
  "get_user_by_email e (new_session (pending db)) = get_user_by_email e db"
  by (simp add: get_user_by_email_def new_session_def)

lemma serve_committed:
  "serve a g t req = committed (snd (handle a g req (new_session t)))"
proof (cases "handle a g req (new_session t)")
  case (Pair r s1)
  then show ?thesis
    by (cases r) (simp_all add: serve_def session_def close_def rollback_def)
qed

lemma snd_handle:
  "snd (handle a g (Signup body base) db) = fst (snd (route_signup a g body [] base db))"
  "snd (handle a g (Login n p) db) = snd (route_login a n p db)"
  "snd (handle a g (RefreshToken t) db) = snd (route_refresh_token a t db)"
  "snd (handle a g (ConfirmedEmail t) db) = snd (route_confirmed_email a t db)"
  "snd (handle a g (RequestEmail e base) db) = db"
  "snd (handle a g (CreateContact usr cbody) db) = snd (route_create_contact cbody db usr)"
  "snd (handle a g (UpdateContact usr i cbody) db) = snd (route_update_contact cbody i db usr)"
  "snd (handle a g (DeleteContact usr i) db) = snd (route_delete_contact i db usr)"
  by (simp_all split: prod.splits)

section \<open>Refresh and login\<close>

text \<open>
  Claim C2.  When the presented refresh token decodes to the email of a stored user whose
  \<open>refresh_token\<close> is not the presented string, the handler raises
  \<^verbatim>\<open>HTTPException(401, "Invalid refresh token")\<close>, the response has status 401, and the
  stored \<open>refresh_token\<close> of that user is \<open>None\<close> afterwards: in the session the handler
  leaves, in what that session has committed, and in the tables stored after the whole
  request has gone through the session scope.
\<close>

theorem refresh_mismatch_kills_session:
  assumes "decode_refresh_token a token = Inr e"
    and "get_user_by_email e db = Some u"
    and "refresh_token u \<noteq> Some token"
  shows "fst (route_refresh_token a token db) = Inl (HTTPException 401 ''Invalid refresh token'')
    \<and> respond 200 (fst (route_refresh_token a token db))
        = ErrorResponse 401 ''Invalid refresh token''
    \<and> map_option refresh_token (get_user_by_email e (snd (route_refresh_token a token db)))
        = Some None
    \<and> committed (snd (route_refresh_token a token db))
        = pending (snd (route_refresh_token a token db))
    \<and> map_option refresh_token
         (find (\<lambda>x. email x = e) (users (serve a g (pending db) (RefreshToken token))))
        = Some None"
proof -
  let ?db = "new_session (pending db)"
  have h: "fst (route_refresh_token a token db) = Inl (HTTPException 401 ''Invalid refresh token'')"
    using assms by (simp add: route_refresh_token_def new_HTTPException_ok)
  have s: "snd (route_refresh_token a token db) = update_token u None db"
    using assms by (simp add: route_refresh_token_def)
  have s': "snd (route_refresh_token a token ?db) = update_token u None ?db"
    using assms by (simp add: route_refresh_token_def get_user_by_email_new_session)
  have stored: "map_option refresh_token (get_user_by_email e (update_token u None d)) = Some None"
    if "get_user_by_email e d = Some u" for d
    using that by (simp add: get_user_by_email_update_token)
  have "serve a g (pending db) (RefreshToken token) = pending (update_token u None ?db)"
    by (simp only: serve_committed snd_handle s' update_token_committed)
  then have "find (\<lambda>x. email x = e) (users (serve a g (pending db) (RefreshToken token)))
      = get_user_by_email e (update_token u None ?db)"
    by (simp add: get_user_by_email_def)
  then have served: "map_option refresh_token
         (find (\<lambda>x. email x = e) (users (serve a g (pending db) (RefreshToken token))))
        = Some None"
    using stored [of ?db] assms(2) by (simp add: get_user_by_email_new_session)
  show ?thesis
    using h served stored [OF assms(2)] by (simp add: s update_token_committed)
qed

theorem refresh_mismatch_kills_session_witness:
  "decode_refresh_token auth0 ''refresh-0'' = Inr ''a@x.com''
    \<and> get_user_by_email ''a@x.com'' db0 = Some alice
    \<and> refresh_token alice \<noteq> Some ''refresh-0''
    \<and> respond 200 (fst (route_refresh_token auth0 ''refresh-0'' db0))
        = ErrorResponse 401 ''Invalid refresh token''
    \<and> map_option refresh_token
         (find (\<lambda>x. email x = ''a@x.com'')
            (users (serve auth0 gravatar0 (pending db0) (RefreshToken ''refresh-0''))))
        = Some None"
proof -
  have a: "decode_refresh_token auth0 ''refresh-0'' = Inr ''a@x.com''"
    by (simp add: auth0_def)
  have b: "get_user_by_email ''a@x.com'' db0 = Some alice"
    by (simp add: get_user_by_email_def db0_def alice_def)
  have c: "refresh_token alice \<noteq> Some ''refresh-0''"
    by (simp add: alice_def)
  show ?thesis
    using refresh_mismatch_kills_session [OF a b c, of gravatar0] a b c by simp
qed

text \<open>
  Claim C3.  For a stored user with \<open>confirmed = False\<close> the login handler raises
  \<^verbatim>\<open>HTTPException(401, "Email not confirmed")\<close> and leaves the session as it was, for
  every credential service: whatever \<open>verify_password\<close> would answer, and also if it
  would raise.  The checks are ordered: an email with no stored user gives
  \<^verbatim>\<open>"Invalid email"\<close> whatever the rest; an unconfirmed user gives
  \<^verbatim>\<open>"Email not confirmed"\<close> whatever the password; and any other outcome, the outcome of
  the password check among them, is reached only for a stored, confirmed user.
\<close>

theorem login_unconfirmed_rejected:
  assumes "get_user_by_email name db = Some u" and "\<not> confirmed u"
  shows "route_login a name pw db = (Inl (HTTPException 401 ''Email not confirmed''), db)
    \<and> respond 200 (fst (route_login a name pw db)) = ErrorResponse 401 ''Email not confirmed''
    \<and> (get_user_by_email name' db = None \<longrightarrow>
         route_login a name' pw db = (Inl (HTTPException 401 ''Invalid email''), db))
    \<and> (fst (route_login a name' pw db) \<noteq> Inl (HTTPException 401 ''Invalid email'')
         \<and> fst (route_login a name' pw db) \<noteq> Inl (HTTPException 401 ''Email not confirmed'')
         \<longrightarrow> (\<exists>v. get_user_by_email name' db = Some v \<and> confirmed v))"
proof -
  have 1: "route_login a name pw db = (Inl (HTTPException 401 ''Email not confirmed''), db)"
    using assms by (simp add: route_login_def new_HTTPException_ok)
  have 2: "get_user_by_email name' db = None \<longrightarrow>
         route_login a name' pw db = (Inl (HTTPException 401 ''Invalid email''), db)"
    by (simp add: route_login_def new_HTTPException_ok)
  have 3: "fst (route_login a name' pw db) \<noteq> Inl (HTTPException 401 ''Invalid email'')
         \<and> fst (route_login a name' pw db) \<noteq> Inl (HTTPException 401 ''Email not confirmed'')
         \<longrightarrow> (\<exists>v. get_user_by_email name' db = Some v \<and> confirmed v)"
  proof (cases "get_user_by_email name' db")
    case None
    then show ?thesis
      by (simp add: route_login_def new_HTTPException_ok)
  next
    case (Some v)
    then show ?thesis
      by (cases "confirmed v") (simp_all add: route_login_def new_HTTPException_ok)
  qed
  from 1 2 3 show ?thesis
    by simp
qed

theorem login_unconfirmed_rejected_witness:
  "get_user_by_email ''b@x.com'' db0 = Some bob \<and> \<not> confirmed bob
    \<and> verify_password auth0 ''pw2'' (password bob) = Inr True
    \<and> route_login auth0 ''b@x.com'' ''pw2'' db0
        = (Inl (HTTPException 401 ''Email not confirmed''), db0)
    \<and> route_login auth0 ''nobody@x.com'' ''pw2'' db0
        = (Inl (HTTPException 401 ''Invalid email''), db0)"
proof -
  have a: "get_user_by_email ''b@x.com'' db0 = Some bob"
    by (simp add: get_user_by_email_def db0_def alice_def bob_def)
  have b: "\<not> confirmed bob"
    by (simp add: bob_def)
  have c: "verify_password auth0 ''pw2'' (password bob) = Inr True"
    by (simp add: auth0_def bob_def)
  have d: "get_user_by_email ''nobody@x.com'' db0 = None"
    by (simp add: get_user_by_email_def db0_def alice_def bob_def)
  show ?thesis
    using login_unconfirmed_rejected [OF a b, of auth0 "''pw2''" "''nobody@x.com''"] a b c d
    by simp
qed

text \<open>
  Claim C4.  When the user exists, is confirmed and the password verifies, the login
  handler returns a token body whose refresh token is the one \<open>create_refresh_token\<close>
  made, and afterwards the stored \<open>refresh_token\<close> of that user is that same string,
  whatever was stored before: in the session, in what it has committed, and in the tables
  stored after the request.
\<close>

theorem login_refresh_token_round_trip:
  assumes "get_user_by_email name db = Some u"
    and "confirmed u"
    and "verify_password a pw (password u) = Inr True"
  shows "\<exists>body db'. route_login a name pw db = (Inr body, db')
    \<and> respond 200 (fst (route_login a name pw db)) = Response 200 body
    \<and> refresh_token_out body = create_refresh_token a [(''sub'', email u)]
    \<and> map_option refresh_token (get_user_by_email name db') = Some (Some (refresh_token_out body))
    \<and> committed db' = pending db'
    \<and> map_option refresh_token
         (find (\<lambda>x. email x = name) (users (serve a g (pending db) (Login name pw))))
        = Some (Some (refresh_token_out body))"
proof -
  let ?tok = "create_refresh_token a [(''sub'', email u)]"
  let ?body = "\<lparr>access_token = create_access_token a [(''sub'', email u), (''test'', sonya)],
                 refresh_token_out = ?tok, token_type = ''bearer''\<rparr>"
  let ?db = "new_session (pending db)"
  have r: "route_login a name pw d = (Inr ?body, update_token u (Some ?tok) d)"
    if "get_user_by_email name d = Some u" for d
    using that assms(2,3) by (simp add: route_login_def Let_def)
  have stored: "map_option refresh_token (get_user_by_email name (update_token u (Some ?tok) d))
      = Some (Some ?tok)"
    if "get_user_by_email name d = Some u" for d
    using that by (simp add: get_user_by_email_update_token)
  have u': "get_user_by_email name ?db = Some u"
    using assms(1) by (simp add: get_user_by_email_new_session)
  have "serve a g (pending db) (Login name pw) = pending (update_token u (Some ?tok) ?db)"
    by (simp only: serve_committed snd_handle r [OF u'] snd_conv update_token_committed)
  then have "find (\<lambda>x. email x = name) (users (serve a g (pending db) (Login name pw)))
      = get_user_by_email name (update_token u (Some ?tok) ?db)"
    by (simp add: get_user_by_email_def)
  then have served: "map_option refresh_token
         (find (\<lambda>x. email x = name) (users (serve a g (pending db) (Login name pw))))
        = Some (Some ?tok)"
    using stored [OF u'] by simp
  show ?thesis
    using r [OF assms(1)] stored [OF assms(1)] served
    by (simp add: update_token_committed)
qed

theorem login_refresh_token_round_trip_witness:
  "get_user_by_email ''a@x.com'' db0 = Some alice \<and> confirmed alice
    \<and> verify_password auth0 ''pw'' (password alice) = Inr True
    \<and> refresh_token alice = Some ''refresh-1''
    \<and> (\<exists>body db'. route_login auth0 ''a@x.com'' ''pw'' db0 = (Inr body, db')
          \<and> refresh_token_out body = ''refresh-2''
          \<and> map_option refresh_token (get_user_by_email ''a@x.com'' db') = Some (Some ''refresh-2''))"
proof -
  have a: "get_user_by_email ''a@x.com'' db0 = Some alice"
    by (simp add: get_user_by_email_def db0_def alice_def)
  have b: "confirmed alice"
    by (simp add: alice_def)
  have c: "verify_password auth0 ''pw'' (password alice) = Inr True"
    by (simp add: auth0_def alice_def)
  have d: "refresh_token alice = Some ''refresh-1''"
    by (simp add: alice_def)
  have e: "create_refresh_token auth0 [(''sub'', email alice)] = ''refresh-2''"
    by (simp add: auth0_def)
  from login_refresh_token_round_trip [OF a b c, of gravatar0]
  obtain body db' where "route_login auth0 ''a@x.com'' ''pw'' db0 = (Inr body, db')"
    and "refresh_token_out body = ''refresh-2''"
    and "map_option refresh_token (get_user_by_email ''a@x.com'' db') = Some (Some ''refresh-2'')"
    unfolding e by auto
  with a b c d show ?thesis
    by blast
qed

text \<open>
  Claim C5 (the code departs from it).  For a stored, confirmed user whose password does
  not verify, the handler builds its exception with the keyword \<^verbatim>\<open>tatus_code\<close>; the
  constructor call raises \<^verbatim>\<open>TypeError\<close>, so the request ends with status 500 and not
  with 401.
\<close>

theorem login_bad_password_raises_TypeError:
  assumes "get_user_by_email name db = Some u"
    and "confirmed u"
    and "verify_password a pw (password u) = Inr False"
  shows "route_login a name pw db
      = (Inl (TypeError ''__init__() got an unexpected keyword argument''), db)
    \<and> respond 200 (fst (route_login a name pw db)) = ErrorResponse 500 ''Internal Server Error''
    \<and> respond 200 (fst (route_login a name pw db)) \<noteq> ErrorResponse 401 ''Invalid password''"
  using assms by (simp add: route_login_def new_HTTPException_tatus_code)

theorem login_bad_password_raises_TypeError_witness:
  "get_user_by_email ''a@x.com'' db0 = Some alice \<and> confirmed alice
    \<and> verify_password auth0 ''wrong'' (password alice) = Inr False
    \<and> respond 200 (fst (route_login auth0 ''a@x.com'' ''wrong'' db0))
        = ErrorResponse 500 ''Internal Server Error''"
proof -
  have a: "get_user_by_email ''a@x.com'' db0 = Some alice"
    by (simp add: get_user_by_email_def db0_def alice_def)
  have b: "confirmed alice"
    by (simp add: alice_def)
  have c: "verify_password auth0 ''wrong'' (password alice) = Inr False"
    by (simp add: auth0_def alice_def)
  show ?thesis
    using login_bad_password_raises_TypeError [OF a b c] a b c by simp
qed

section \<open>Creating a contact\<close>

text \<open>
  Claim C8 (the code departs from it).  The route calls
  \<^verbatim>\<open>repository_contacts.create_contact\<close>, a name the repository module does not
  define: every request ends with \<^verbatim>\<open>AttributeError\<close>, status 500, and the session as it
  was.  The repository's \<open>create_todo\<close>, which the route does not reach, appends a
  contact owned by the caller and commits.
\<close>

theorem route_create_contact_raises_AttributeError:
  "route_create_contact body db usr
      = (Inl (AttributeError ''module src.repository.contacts has no attribute create_contact''),
         db)
    \<and> respond 201 (fst (route_create_contact body db usr))
        = ErrorResponse 500 ''Internal Server Error''
    \<and> user_id (fst (create_todo body db usr)) = uid usr
    \<and> contacts (committed (snd (create_todo body db usr)))
        = contacts (pending db) @ [fst (create_todo body db usr)]"
  by (simp add: route_create_contact_def repository_contacts_def create_todo_def Let_def
      commit_def)

section \<open>Requesting the confirmation email again\<close>

text \<open>
  Claim C10.  When no stored user has the submitted email, \<open>get_user_by_email\<close> returns
  \<open>None\<close>, the handler reads \<^verbatim>\<open>user.confirmed\<close> before its test \<^verbatim>\<open>if user\<close>, and the
  request ends with \<^verbatim>\<open>AttributeError\<close>, status 500: no task is added and the
  check-your-email message is not returned.
\<close>

theorem request_email_unknown_user_faults:
  assumes "get_user_by_email e db = None"
  shows "route_request_email e bt base_url db = (Inl (AttributeError ''confirmed''), bt)
    \<and> respond 200 (fst (route_request_email e bt base_url db))
        = ErrorResponse 500 ''Internal Server Error''
    \<and> fst (route_request_email e bt base_url db) \<noteq> Inr ''Check your email for confirmation.''"
  using assms by (simp add: route_request_email_def getattr_def)

theorem request_email_unknown_user_faults_witness:
  "get_user_by_email ''nobody@x.com'' db0 = None
    \<and> route_request_email ''nobody@x.com'' [] ''http://host/'' db0
        = (Inl (AttributeError ''confirmed''), [])
    \<and> respond 200 (fst (route_request_email ''nobody@x.com'' [] ''http://host/'' db0))
        = ErrorResponse 500 ''Internal Server Error''"
proof -
  have a: "get_user_by_email ''nobody@x.com'' db0 = None"
    by (simp add: get_user_by_email_def db0_def alice_def bob_def)
  show ?thesis
    using request_email_unknown_user_faults [OF a, of "[]" "''http://host/''"] a by simp
qed

section \<open>Signup\<close>

lemma get_user_by_email_create_user:
  "get_user_by_email e (snd (create_user g body db))
     = (case get_user_by_email e db of
          Some x \<Rightarrow> Some x
        | None \<Rightarrow> if s_email body = e then Some (fst (create_user g body db)) else None)"
  by (simp add: get_user_by_email_def create_user_def Let_def commit_def find_append_new
      split: option.splits)

lemma create_user_committed:
  "committed (snd (create_user g body db)) = pending (snd (create_user g body db))"
  by (simp add: create_user_def Let_def commit_def)

lemma route_signup_new:
  assumes "get_user_by_email (s_email body) db = None"
  shows "route_signup a g body bt base_url db =
     (Inr (fst (create_user g (body\<lparr>s_password := get_password_hash a (s_password body)\<rparr>) db)),
      snd (create_user g (body\<lparr>s_password := get_password_hash a (s_password body)\<rparr>) db),
      bt @ [send_email_task (s_email body) (s_username body) base_url])"
  using assms by (simp add: route_signup_def Let_def split: prod.splits) (simp add: create_user_def Let_def)

text \<open>
  Claim C7.  A signup whose email is already stored is answered with 409, and the session
  and the task list are as they were.  A signup whose email is not stored returns, with
  status 201, a user that is appended to the users table and committed, whose password is
  the hash of the submitted one and whose \<open>confirmed\<close> is \<open>False\<close>, and adds one
  \<open>send_email\<close> task.  The response and the stored tables are the same whatever the mail
  transport does when the task runs later, and a \<^verbatim>\<open>ConnectionErrors\<close> of the transport
  does not leave \<open>send_email\<close>.
\<close>

theorem signup_conflict_or_created:
  "(get_user_by_email (s_email body) db \<noteq> None \<longrightarrow>
      route_signup a g body bt base_url db
        = (Inl (HTTPException 409 ''Account already exists''), db, bt)
      \<and> respond 201 (fst (route_signup a g body bt base_url db))
          = ErrorResponse 409 ''Account already exists'')
   \<and> (get_user_by_email (s_email body) db = None \<longrightarrow>
        (\<exists>new_user db'.
           route_signup a g body bt base_url db
             = (Inr new_user, db', bt @ [send_email_task (s_email body) (s_username body) base_url])
         \<and> respond 201 (fst (route_signup a g body bt base_url db)) = Response 201 new_user
         \<and> confirmed new_user = False
         \<and> email new_user = s_email body
         \<and> password new_user = get_password_hash a (s_password body)
         \<and> users (pending db') = users (pending db) @ [new_user]
         \<and> committed db' = pending db'
         \<and> get_user_by_email (s_email body) db' = Some new_user))
   \<and> fst (post_signup a g send_message body base_url t)
        = fst (post_signup a g send_message' body base_url t)
   \<and> fst (snd (post_signup a g send_message body base_url t))
        = fst (snd (post_signup a g send_message' body base_url t))
   \<and> (send_message (e, host, uname, create_email_token a [(''sub'', e)])
         = Inl (ConnectionErrors err) \<longrightarrow>
       send_email a send_message e uname host = (Inr (), [err]))"
proof -
  let ?body = "body\<lparr>s_password := get_password_hash a (s_password body)\<rparr>"
  have 1: "get_user_by_email (s_email body) db \<noteq> None \<longrightarrow>
      route_signup a g body bt base_url db
        = (Inl (HTTPException 409 ''Account already exists''), db, bt)
      \<and> respond 201 (fst (route_signup a g body bt base_url db))
          = ErrorResponse 409 ''Account already exists''"
    by (auto simp: route_signup_def new_HTTPException_ok)
  have 2: "get_user_by_email (s_email body) db = None \<longrightarrow>
        (\<exists>new_user db'.
           route_signup a g body bt base_url db
             = (Inr new_user, db', bt @ [send_email_task (s_email body) (s_username body) base_url])
         \<and> respond 201 (fst (route_signup a g body bt base_url db)) = Response 201 new_user
         \<and> confirmed new_user = False
         \<and> email new_user = s_email body
         \<and> password new_user = get_password_hash a (s_password body)
         \<and> users (pending db') = users (pending db) @ [new_user]
         \<and> committed db' = pending db'
         \<and> get_user_by_email (s_email body) db' = Some new_user)"
  proof
    assume none: "get_user_by_email (s_email body) db = None"
    have "get_user_by_email (s_email body) (snd (create_user g ?body db))
        = Some (fst (create_user g ?body db))"
      using none get_user_by_email_create_user [of "s_email body" g ?body db] by simp
    moreover have "confirmed (fst (create_user g ?body db)) = False"
      and "email (fst (create_user g ?body db)) = s_email body"
      and "password (fst (create_user g ?body db)) = get_password_hash a (s_password body)"
      and "users (pending (snd (create_user g ?body db)))
            = users (pending db) @ [fst (create_user g ?body db)]"
      by (simp_all add: create_user_def Let_def commit_def)
    ultimately show "\<exists>new_user db'.
           route_signup a g body bt base_url db
             = (Inr new_user, db', bt @ [send_email_task (s_email body) (s_username body) base_url])
         \<and> respond 201 (fst (route_signup a g body bt base_url db)) = Response 201 new_user
         \<and> confirmed new_user = False
         \<and> email new_user = s_email body
         \<and> password new_user = get_password_hash a (s_password body)
         \<and> users (pending db') = users (pending db) @ [new_user]
         \<and> committed db' = pending db'
         \<and> get_user_by_email (s_email body) db' = Some new_user"
      using route_signup_new [OF none, of a g bt base_url] create_user_committed [of g ?body db]
      by simp
  qed
  have 3: "fst (post_signup a g send_message body base_url t)
        = fst (post_signup a g send_message' body base_url t)"
    and 4: "fst (snd (post_signup a g send_message body base_url t))
        = fst (snd (post_signup a g send_message' body base_url t))"
    by (simp_all add: post_signup_def split: prod.splits)
  have 5: "send_message (e, host, uname, create_email_token a [(''sub'', e)])
         = Inl (ConnectionErrors err) \<longrightarrow>
       send_email a send_message e uname host = (Inr (), [err])"
    by (simp add: send_email_def)
  from 1 2 3 4 5 show ?thesis
    by blast
qed

theorem signup_conflict_or_created_witness:
  "get_user_by_email (s_email alice_body) db0 \<noteq> None
    \<and> route_signup auth0 gravatar0 alice_body [] ''http://host/'' db0
        = (Inl (HTTPException 409 ''Account already exists''), db0, [])
    \<and> get_user_by_email (s_email carol_body) db0 = None
    \<and> (\<exists>new_user db'.
          route_signup auth0 gravatar0 carol_body [] ''http://host/'' db0
            = (Inr new_user, db', [send_email_task ''c@x.com'' ''carol'' ''http://host/''])
        \<and> confirmed new_user = False
        \<and> password new_user = ''h:pw3''
        \<and> get_user_by_email ''c@x.com'' db' = Some new_user)
    \<and> transport_down (''c@x.com'', ''http://host/'', ''carol'', create_email_token auth0 [(''sub'', ''c@x.com'')])
        = Inl (ConnectionErrors ''connection refused'')
    \<and> send_email auth0 transport_down ''c@x.com'' ''carol'' ''http://host/''
        = (Inr (), [''connection refused''])"
proof -
  have a: "get_user_by_email (s_email alice_body) db0 \<noteq> None"
    by (simp add: get_user_by_email_def db0_def alice_def alice_body_def)
  have b: "get_user_by_email (s_email carol_body) db0 = None"
    by (simp add: get_user_by_email_def db0_def alice_def bob_def carol_body_def)
  have c: "transport_down (''c@x.com'', ''http://host/'', ''carol'', create_email_token auth0 [(''sub'', ''c@x.com'')])
        = Inl (ConnectionErrors ''connection refused'')"
    by (simp add: transport_down_def)
  have d: "s_email carol_body = ''c@x.com''" "s_username carol_body = ''carol''"
    "get_password_hash auth0 (s_password carol_body) = ''h:pw3''"
    by (simp_all add: carol_body_def auth0_def)
  have 1: "route_signup auth0 gravatar0 alice_body [] ''http://host/'' db0
        = (Inl (HTTPException 409 ''Account already exists''), db0, [])"
    using signup_conflict_or_created
      [where body = alice_body and db = db0 and a = auth0 and g = gravatar0 and bt = "[]"
         and base_url = "''http://host/''"] a
    by blast
  have 2: "\<exists>new_user db'.
          route_signup auth0 gravatar0 carol_body [] ''http://host/'' db0
            = (Inr new_user, db', [send_email_task ''c@x.com'' ''carol'' ''http://host/''])
        \<and> confirmed new_user = False
        \<and> password new_user = ''h:pw3''
        \<and> get_user_by_email ''c@x.com'' db' = Some new_user"
    using signup_conflict_or_created
      [where body = carol_body and db = db0 and a = auth0 and g = gravatar0 and bt = "[]"
         and base_url = "''http://host/''" and send_message = transport_down
         and send_message' = transport_down and t = tables0 and e = "[]" and host = "[]"
         and uname = "[]" and err = "[]"] b
    unfolding d append_Nil by blast
  have 3: "send_email auth0 transport_down ''c@x.com'' ''carol'' ''http://host/''
        = (Inr (), [''connection refused''])"
    using signup_conflict_or_created
      [where a = auth0 and send_message = transport_down and e = "''c@x.com''"
         and host = "''http://host/''" and uname = "''carol''" and err = "''connection refused''"] c
    by blast
  from a b c 1 2 3 show ?thesis
    by blast
qed

section \<open>Account confirmation\<close>

lemma is_confirmed_update_token:
  "is_confirmed e (pending (update_token usr tok db)) = is_confirmed e (pending db)"
  by (simp add: is_confirmed_def update_token_def commit_def find_map_same_key
      split: option.splits)

lemma get_user_by_email_confirmed_email:
  "get_user_by_email e (confirmed_email e' db)
     = (case get_user_by_email e' db of
          None \<Rightarrow> get_user_by_email e db
        | Some usr \<Rightarrow>
            map_option (\<lambda>u. if uid u = uid usr then u\<lparr>confirmed := True\<rparr> else u)
              (get_user_by_email e db))"
  by (simp add: get_user_by_email_def confirmed_email_def commit_def find_map_same_key
      split: option.splits)

lemma is_confirmed_pending:
  "is_confirmed e (pending db)
     = (case get_user_by_email e db of None \<Rightarrow> False | Some u \<Rightarrow> confirmed u)"
  by (simp add: is_confirmed_def get_user_by_email_def)

lemma is_confirmed_confirmed_email:
  "is_confirmed e (pending db) \<Longrightarrow> is_confirmed e (pending (confirmed_email e' db))"
  by (auto simp: is_confirmed_pending get_user_by_email_confirmed_email split: option.splits)

lemma is_confirmed_create_user:
  "is_confirmed e (pending db) \<Longrightarrow> is_confirmed e (pending (snd (create_user g body db)))"
  by (auto simp: is_confirmed_pending get_user_by_email_create_user split: option.splits)

lemma confirmed_email_committed:
  "committed (confirmed_email e db) = pending (confirmed_email e db)"
  by (simp add: confirmed_email_def commit_def split: option.splits)

lemma update_contact_users:
  "users (pending (snd (update_contact i body db usr))) = users (pending db)"
  "pending db = committed db \<Longrightarrow>
     pending (snd (update_contact i body db usr)) = committed (snd (update_contact i body db usr))"
  by (simp_all add: update_contact_def commit_def Let_def split: sum.splits option.splits)

lemma remove_contact_users:
  "users (pending (snd (remove_contact i db usr))) = users (pending db)"
  "pending db = committed db \<Longrightarrow>
     pending (snd (remove_contact i db usr)) = committed (snd (remove_contact i db usr))"
  by (simp_all add: remove_contact_def commit_def Let_def split: sum.splits option.splits)

lemma route_signup_keeps:
  assumes "pending db = committed db" and "is_confirmed e (pending db)"
  shows "pending (fst (snd (route_signup a g body bt base db)))
           = committed (fst (snd (route_signup a g body bt base db)))
    \<and> is_confirmed e (pending (fst (snd (route_signup a g body bt base db))))"
proof (cases "get_user_by_email (s_email body) db")
  case None
  show ?thesis
    using assms by (simp add: route_signup_new [OF None] create_user_committed is_confirmed_create_user)
next
  case (Some x)
  then show ?thesis
    using assms by (simp add: route_signup_def)
qed

lemma route_login_keeps:
  assumes "pending db = committed db" and "is_confirmed e (pending db)"
  shows "pending (snd (route_login a n p db)) = committed (snd (route_login a n p db))
    \<and> is_confirmed e (pending (snd (route_login a n p db)))"
  using assms
  by (simp add: route_login_def Let_def update_token_committed is_confirmed_update_token
      split: option.splits sum.splits bool.splits)

lemma route_refresh_token_keeps:
  assumes "pending db = committed db" and "is_confirmed e (pending db)"
  shows "pending (snd (route_refresh_token a t db)) = committed (snd (route_refresh_token a t db))
    \<and> is_confirmed e (pending (snd (route_refresh_token a t db)))"
  using assms
  by (simp add: route_refresh_token_def Let_def update_token_committed is_confirmed_update_token
      split: option.splits sum.splits)

lemma route_confirmed_email_keeps:
  assumes "pending db = committed db" and "is_confirmed e (pending db)"
  shows "pending (snd (route_confirmed_email a t db)) = committed (snd (route_confirmed_email a t db))
    \<and> is_confirmed e (pending (snd (route_confirmed_email a t db)))"
  using assms
  by (simp add: route_confirmed_email_def confirmed_email_committed is_confirmed_confirmed_email
      split: option.splits sum.splits)

lemma route_contacts_keep:
  assumes "pending db = committed db" and "is_confirmed e (pending db)"
  shows "pending (snd (route_create_contact body db usr)) = committed (snd (route_create_contact body db usr))
    \<and> is_confirmed e (pending (snd (route_create_contact body db usr)))"
    and "pending (snd (route_update_contact body i db usr)) = committed (snd (route_update_contact body i db usr))
    \<and> is_confirmed e (pending (snd (route_update_contact body i db usr)))"
    and "pending (snd (route_delete_contact i db usr)) = committed (snd (route_delete_contact i db usr))
    \<and> is_confirmed e (pending (snd (route_delete_contact i db usr)))"
proof -
  show "pending (snd (route_create_contact body db usr)) = committed (snd (route_create_contact body db usr))
    \<and> is_confirmed e (pending (snd (route_create_contact body db usr)))"
    using assms by (simp add: route_create_contact_def repository_contacts_def)
  have u: "snd (route_update_contact body i db usr) = snd (update_contact i body db usr)"
    by (simp add: route_update_contact_def split: prod.splits sum.splits option.splits)
  have d: "snd (route_delete_contact i db usr) = snd (remove_contact i db usr)"
    by (simp add: route_delete_contact_def split: prod.splits sum.splits option.splits)
  show "pending (snd (route_update_contact body i db usr)) = committed (snd (route_update_contact body i db usr))
    \<and> is_confirmed e (pending (snd (route_update_contact body i db usr)))"
    using assms update_contact_users [where i = i and body = body and db = db and usr = usr]
    by (simp add: u is_confirmed_def)
  show "pending (snd (route_delete_contact i db usr)) = committed (snd (route_delete_contact i db usr))
    \<and> is_confirmed e (pending (snd (route_delete_contact i db usr)))"
    using assms remove_contact_users [where i = i and db = db and usr = usr]
    by (simp add: d is_confirmed_def)
qed

lemma handle_keeps:
  assumes "pending db = committed db" and "is_confirmed e (pending db)"
  shows "pending (snd (handle a g req db)) = committed (snd (handle a g req db))
    \<and> is_confirmed e (pending (snd (handle a g req db)))"
proof (cases req)
  case (Signup body base)
  show ?thesis
    unfolding Signup snd_handle by (rule route_signup_keeps [OF assms])
next
  case (Login n p)
  show ?thesis
    unfolding Login snd_handle by (rule route_login_keeps [OF assms])
next
  case (RefreshToken t)
  show ?thesis
    unfolding RefreshToken snd_handle by (rule route_refresh_token_keeps [OF assms])
next
  case (ConfirmedEmail t)
  show ?thesis
    unfolding ConfirmedEmail snd_handle by (rule route_confirmed_email_keeps [OF assms])
next
  case (RequestEmail x base)
  show ?thesis
    unfolding RequestEmail snd_handle using assms by blast
next
  case (CreateContact usr body)
  show ?thesis
    unfolding CreateContact snd_handle by (rule route_contacts_keep(1) [OF assms])
next
  case (UpdateContact usr i body)
  show ?thesis
    unfolding UpdateContact snd_handle by (rule route_contacts_keep(2) [OF assms])
next
  case (DeleteContact usr i)
  show ?thesis
    unfolding DeleteContact snd_handle by (rule route_contacts_keep(3) [OF assms])
qed

lemma serve_keeps_confirmed:
  assumes "is_confirmed e t"
  shows "is_confirmed e (serve a g t req)"
proof -
  have "pending (new_session t) = committed (new_session t)"
    and "is_confirmed e (pending (new_session t))"
    using assms by (simp_all add: new_session_def)
  from handle_keeps [OF this, of a g req]
  have "is_confirmed e (committed (snd (handle a g req (new_session t))))"
    by metis
  then show ?thesis
    by (simp only: serve_committed)
qed

lemma fold_serve_keeps_confirmed:
  "is_confirmed e t \<Longrightarrow> is_confirmed e (fold (\<lambda>req t. serve a g t req) reqs t)"
  by (induction reqs arbitrary: t) (simp_all add: serve_keeps_confirmed)

text \<open>
  Claim C6.  The user a successful signup returns and stores has \<open>confirmed = False\<close>.
  A confirmation whose token decodes to the email of a stored unconfirmed user answers
  \<^verbatim>\<open>"Email confirmed"\<close> and leaves that user confirmed.  For a stored user who is
  confirmed already the handler answers \<^verbatim>\<open>"Your email is already confirmed"\<close> and returns
  the session as it received it, with no call of the repository.  Once the stored user with
  an email is confirmed, it stays so after any sequence of requests to the handlers.
\<close>

theorem confirmation_state_machine:
  "(get_user_by_email (s_email body) db = None \<longrightarrow>
      (\<exists>new_user db' bt'.
         route_signup a g body bt base_url db = (Inr new_user, db', bt')
       \<and> confirmed new_user = False
       \<and> get_user_by_email (s_email body) db' = Some new_user))
   \<and> (get_email_from_token a token = Inr e \<and> get_user_by_email e db = Some u \<and> \<not> confirmed u \<longrightarrow>
        fst (route_confirmed_email a token db) = Inr ''Email confirmed''
      \<and> map_option confirmed (get_user_by_email e (snd (route_confirmed_email a token db)))
          = Some True
      \<and> committed (snd (route_confirmed_email a token db))
          = pending (snd (route_confirmed_email a token db)))
   \<and> (get_email_from_token a token = Inr e \<and> get_user_by_email e db = Some u \<and> confirmed u \<longrightarrow>
        route_confirmed_email a token db = (Inr ''Your email is already confirmed'', db))
   \<and> (is_confirmed e' t \<longrightarrow> is_confirmed e' (fold (\<lambda>req t. serve a g t req) reqs t))"
proof -
  have 1: "get_user_by_email (s_email body) db = None \<longrightarrow>
      (\<exists>new_user db' bt'.
         route_signup a g body bt base_url db = (Inr new_user, db', bt')
       \<and> confirmed new_user = False
       \<and> get_user_by_email (s_email body) db' = Some new_user)"
  proof
    assume none: "get_user_by_email (s_email body) db = None"
    let ?body = "body\<lparr>s_password := get_password_hash a (s_password body)\<rparr>"
    have "get_user_by_email (s_email body) (snd (create_user g ?body db))
        = Some (fst (create_user g ?body db))"
      using none get_user_by_email_create_user [of "s_email body" g ?body db] by simp
    moreover have "confirmed (fst (create_user g ?body db)) = False"
      by (simp add: create_user_def Let_def)
    ultimately show "\<exists>new_user db' bt'.
         route_signup a g body bt base_url db = (Inr new_user, db', bt')
       \<and> confirmed new_user = False
       \<and> get_user_by_email (s_email body) db' = Some new_user"
      using route_signup_new [OF none, of a g bt base_url] by simp
  qed
  have 2: "get_email_from_token a token = Inr e \<and> get_user_by_email e db = Some u \<and> \<not> confirmed u \<longrightarrow>
        fst (route_confirmed_email a token db) = Inr ''Email confirmed''
      \<and> map_option confirmed (get_user_by_email e (snd (route_confirmed_email a token db)))
          = Some True
      \<and> committed (snd (route_confirmed_email a token db))
          = pending (snd (route_confirmed_email a token db))"
    by (simp add: route_confirmed_email_def get_user_by_email_confirmed_email
        confirmed_email_committed)
  have 3: "get_email_from_token a token = Inr e \<and> get_user_by_email e db = Some u \<and> confirmed u \<longrightarrow>
        route_confirmed_email a token db = (Inr ''Your email is already confirmed'', db)"
    by (simp add: route_confirmed_email_def)
  have 4: "is_confirmed e' t \<longrightarrow> is_confirmed e' (fold (\<lambda>req t. serve a g t req) reqs t)"
    by (simp add: fold_serve_keeps_confirmed)
  from 1 2 3 4 show ?thesis
    by blast
qed

theorem confirmation_state_machine_witness:
  "get_user_by_email (s_email carol_body) db0 = None
    \<and> (\<exists>new_user db' bt'.
          route_signup auth0 gravatar0 carol_body [] ''http://host/'' db0 = (Inr new_user, db', bt')
        \<and> confirmed new_user = False)
    \<and> get_email_from_token auth0 ''mail-b'' = Inr ''b@x.com''
    \<and> get_user_by_email ''b@x.com'' db0 = Some bob \<and> \<not> confirmed bob
    \<and> fst (route_confirmed_email auth0 ''mail-b'' db0) = Inr ''Email confirmed''
    \<and> map_option confirmed
         (get_user_by_email ''b@x.com'' (snd (route_confirmed_email auth0 ''mail-b'' db0)))
        = Some True
    \<and> get_email_from_token auth0 ''mail-a'' = Inr ''a@x.com''
    \<and> get_user_by_email ''a@x.com'' db0 = Some alice \<and> confirmed alice
    \<and> route_confirmed_email auth0 ''mail-a'' db0 = (Inr ''Your email is already confirmed'', db0)
    \<and> is_confirmed ''a@x.com'' tables0
    \<and> is_confirmed ''a@x.com''
         (fold (\<lambda>req t. serve auth0 gravatar0 t req)
            [RefreshToken ''refresh-0'', Login ''a@x.com'' ''wrong'', ConfirmedEmail ''mail-a'']
            tables0)"
proof -
  have a: "get_user_by_email (s_email carol_body) db0 = None"
    by (simp add: get_user_by_email_def db0_def alice_def bob_def carol_body_def)
  have b: "get_email_from_token auth0 ''mail-b'' = Inr ''b@x.com''"
    "get_user_by_email ''b@x.com'' db0 = Some bob" "\<not> confirmed bob"
    by (simp_all add: auth0_def get_user_by_email_def db0_def alice_def bob_def)
  have c: "get_email_from_token auth0 ''mail-a'' = Inr ''a@x.com''"
    "get_user_by_email ''a@x.com'' db0 = Some alice" "confirmed alice"
    by (simp_all add: auth0_def get_user_by_email_def db0_def alice_def)
  have d: "is_confirmed ''a@x.com'' tables0"
    by (simp add: is_confirmed_def tables0_def alice_def)
  note first = confirmation_state_machine
      [where body = carol_body and db = db0 and a = auth0 and g = gravatar0 and bt = "[]"
         and base_url = "''http://host/''" and token = "''mail-b''" and e = "''b@x.com''"
         and u = bob and e' = "''a@x.com''" and t = tables0
         and reqs = "[RefreshToken ''refresh-0'', Login ''a@x.com'' ''wrong'',
                      ConfirmedEmail ''mail-a'']"]
  note again = confirmation_state_machine
      [where body = carol_body and db = db0 and a = auth0 and g = gravatar0 and bt = "[]"
         and base_url = "''http://host/''" and token = "''mail-a''" and e = "''a@x.com''"
         and u = alice and e' = "''a@x.com''" and t = tables0 and reqs = "[]"]
  have 1: "\<exists>new_user db' bt'.
          route_signup auth0 gravatar0 carol_body [] ''http://host/'' db0 = (Inr new_user, db', bt')
        \<and> confirmed new_user = False"
    using first a by blast
  have 2: "fst (route_confirmed_email auth0 ''mail-b'' db0) = Inr ''Email confirmed''"
    "map_option confirmed
         (get_user_by_email ''b@x.com'' (snd (route_confirmed_email auth0 ''mail-b'' db0)))
        = Some True"
    using first b by blast+
  have 3: "route_confirmed_email auth0 ''mail-a'' db0 = (Inr ''Your email is already confirmed'', db0)"
    using again c by blast
  have 4: "is_confirmed ''a@x.com''
         (fold (\<lambda>req t. serve auth0 gravatar0 t req)
            [RefreshToken ''refresh-0'', Login ''a@x.com'' ''wrong'', ConfirmedEmail ''mail-a'']
            tables0)"
    using first d by blast
  from a b c d 1 2 3 4 show ?thesis
    by blast
qed

section \<open>The session scope\<close>

text \<open>
  Claim C9, as amended.  An exception of class \<^verbatim>\<open>Exception\<close> raised inside the session
  scope is printed, the session is rolled back and then closed, in this order, and the
  exception does not leave the scope: the caller of the block sees no exception.  The
  rollback undoes what the session has not committed; what the body has committed itself
  stays committed.  On every path on which a session was made, the scope closes it last.
\<close>

theorem session_scope_swallows_fault:
  assumes "session_maker self = Some s"
    and "body s = (Inl err, s1)"
    and "is_Exception err"
  shows "(\<exists>s'. session self body = (Swallowed, Some s', [err])
           \<and> calls s' = calls s1 @ [Rollback, Close]
           \<and> pending s' = committed s1
           \<and> committed s' = committed s1
           \<and> closed s')
    \<and> (\<exists>r s' out. session self body' = (r, Some s', out)
           \<and> closed s' \<and> last (calls s') = Close)"
proof -
  have 1: "\<exists>s'. session self body = (Swallowed, Some s', [err])
           \<and> calls s' = calls s1 @ [Rollback, Close]
           \<and> pending s' = committed s1
           \<and> committed s' = committed s1
           \<and> closed s'"
    using assms by (simp add: session_def close_def rollback_def)
  have 2: "\<exists>r s' out. session self body' = (r, Some s', out)
           \<and> closed s' \<and> last (calls s') = Close"
  proof (cases "body' s")
    case (Pair r' s2)
    then show ?thesis
      using assms(1) by (cases r') (simp_all add: session_def close_def)
  qed
  from 1 2 show ?thesis
    by blast
qed

theorem session_scope_swallows_fault_witness:
  "session_maker sessionmanager0 = Some (new_session tables0)
    \<and> fst (faulty_body (new_session tables0)) = Inl (Exception ''storage fault'')
    \<and> is_Exception (Exception ''storage fault'')
    \<and> (\<exists>s'. session sessionmanager0 faulty_body
               = (Swallowed, Some s', [Exception ''storage fault''])
           \<and> calls s' = [Rollback, Close]
           \<and> pending s' = tables0
           \<and> committed s' = tables0
           \<and> closed s')"
proof -
  have a: "session_maker sessionmanager0 = Some (new_session tables0)"
    by (simp add: sessionmanager0_def)
  have b: "faulty_body (new_session tables0)
      = (Inl (Exception ''storage fault''),
         (new_session tables0)\<lparr>pending := (pending (new_session tables0))\<lparr>contacts := []\<rparr>\<rparr>)"
    by (simp add: faulty_body_def)
  have c: "is_Exception (Exception ''storage fault'')"
    by simp
  show ?thesis
    using session_scope_swallows_fault
      [where self = sessionmanager0 and s = "new_session tables0" and body = faulty_body
         and err = "Exception ''storage fault''" and body' = faulty_body, OF a b c] a b c
    by (simp add: new_session_def)
qed

text \<open>
  Claim C9 as stated fails.  A body that raises \<^verbatim>\<open>Exception("storage fault")\<close> leaves the
  scope with no exception for the caller.  And a refresh request with a stale token ends
  in an exception and a rollback, yet the tables stored afterwards differ from those
  before: the handler's own commit stands.
\<close>

theorem session_scope_counterexample:
  "fst (faulty_body (new_session tables0)) = Inl (Exception ''storage fault'')
    \<and> fst (session sessionmanager0 faulty_body) = Swallowed
    \<and> fst (session sessionmanager0 faulty_body) \<noteq> Propagated (Exception ''storage fault'')
    \<and> fst (session sessionmanager0 (handle auth0 gravatar0 (RefreshToken ''refresh-0''))) = Swallowed
    \<and> serve auth0 gravatar0 tables0 (RefreshToken ''refresh-0'') \<noteq> tables0"
proof -
  have 1: "fst (faulty_body (new_session tables0)) = Inl (Exception ''storage fault'')"
    by (simp add: faulty_body_def)
  have 2: "fst (session sessionmanager0 faulty_body) = Swallowed"
    by (simp add: session_def sessionmanager0_def faulty_body_def)
  have u: "get_user_by_email ''a@x.com'' (new_session tables0) = Some alice"
    by (simp add: get_user_by_email_def new_session_def tables0_def alice_def)
  have h: "handle auth0 gravatar0 (RefreshToken ''refresh-0'') (new_session tables0)
      = (Inl (HTTPException 401 ''Invalid refresh token''),
         update_token alice None (new_session tables0))"
    by (simp add: route_refresh_token_def auth0_def u new_HTTPException_ok alice_def)
  have 3: "fst (session sessionmanager0 (handle auth0 gravatar0 (RefreshToken ''refresh-0'')))
      = Swallowed"
    by (simp add: session_def sessionmanager0_def h del: handle.simps)
  have "serve auth0 gravatar0 tables0 (RefreshToken ''refresh-0'')
      = committed (update_token alice None (new_session tables0))"
    by (simp only: serve_committed h snd_conv)
  then have "users (serve auth0 gravatar0 tables0 (RefreshToken ''refresh-0''))
      = [alice\<lparr>refresh_token := None\<rparr>, bob]"
    by (simp add: update_token_def commit_def new_session_def tables0_def alice_def bob_def)
  then have 4: "serve auth0 gravatar0 tables0 (RefreshToken ''refresh-0'') \<noteq> tables0"
    by (auto simp: tables0_def alice_def)
  from 1 2 3 4 show ?thesis
    by simp
qed

end
